theory Spec2Isabelle
  imports Main "HOL-Library.Monad_Syntax"
begin

section \<open>Machine integers\<close>

text \<open>
  Every number of the engine (a space, a checker count, a roll, a player, a variant) is a
  Go \<open>int8\<close>.  It is modelled as an \<open>int\<close>, and every arithmetic operation of the
  source is followed by \<open>i8\<close>, which wraps the mathematical result into \<open>-128 \<dots> 127\<close>
  the way Go's two's complement arithmetic does.
\<close>

definition i8 :: "int \<Rightarrow> int" where
  "i8 x = (x + 128) mod 256 - 128"

lemma i8_id: "- 128 \<le> x \<Longrightarrow> x \<le> 127 \<Longrightarrow> i8 x = x"
  by (simp add: i8_def)

section \<open>Board model\<close>

definition VariantBackgammon :: int where "VariantBackgammon = 0"
definition VariantAceyDeucey :: int where "VariantAceyDeucey = 1"
definition VariantTabula :: int where "VariantTabula = 2"

text \<open>
  Modelled from the spec: the four coordinate constants \<open>SpaceHomePlayer\<close>,
  \<open>SpaceHomeOpponent\<close>, \<open>SpaceBarPlayer\<close> and \<open>SpaceBarOpponent\<close> are declared in a
  file of the package that is not among the sources.  The board has the 28 slots
  \<open>0 \<dots> 27\<close>, of which \<open>1 \<dots> 24\<close> are points, two are homes and two are bars.  The
  homes are \<open>0\<close> and \<open>25\<close>: \<open>SpaceDiff\<close> measures a move into \<open>SpaceHomePlayer\<close> as
  \<open>from\<close> and one into \<open>SpaceHomeOpponent\<close> as \<open>25 - from\<close>, and \<open>LegalMoves\<close> walks
  towards \<open>0\<close> or \<open>25\<close>.  The bars are the remaining slots \<open>26\<close> and \<open>27\<close>.
\<close>

definition SpaceHomePlayer :: int where "SpaceHomePlayer = 0"
definition SpaceHomeOpponent :: int where "SpaceHomeOpponent = 25"
definition SpaceBarPlayer :: int where "SpaceBarPlayer = 26"
definition SpaceBarOpponent :: int where "SpaceBarOpponent = 27"

lemmas variant_defs = VariantBackgammon_def VariantAceyDeucey_def VariantTabula_def
lemmas space_defs =
  SpaceHomePlayer_def SpaceHomeOpponent_def SpaceBarPlayer_def SpaceBarOpponent_def

text \<open>
  Modelled from the spec: \<open>HomeRange\<close> is declared beside the constants.  The home
  quadrant is \<open>1 \<dots> 6\<close> for Player 1 and \<open>19 \<dots> 24\<close> for Player 2, and \<open>19 \<dots> 24\<close>
  for both players in tabula.  The pair is (start, end) in the direction of play, so the
  upper quadrant is returned as \<open>(24, 19)\<close>: \<open>LegalMoves\<close> walks Player 2's quadrant
  downwards to the second component.
\<close>

definition HomeRange :: "int \<Rightarrow> int \<Rightarrow> int \<times> int" where
  "HomeRange player variant =
     (if player = 2 \<or> variant = VariantTabula then (24, 19) else (1, 6))"

definition SpaceDiff :: "int \<Rightarrow> int \<Rightarrow> int \<Rightarrow> int" where
  "SpaceDiff from to variant =
     (if from < 0 \<or> from > 27 \<or> to < 0 \<or> to > 27 then 0
      else if to = SpaceBarPlayer \<or> to = SpaceBarOpponent then 0
      else if (from = SpaceBarPlayer \<or> from = SpaceBarOpponent) \<and>
              (to = SpaceBarPlayer \<or> to = SpaceBarOpponent \<or>
               to = SpaceHomePlayer \<or> to = SpaceHomeOpponent) then 0
      else if to = SpaceHomePlayer then
        (if variant = VariantTabula then i8 (25 - from) else from)
      else if to = SpaceHomeOpponent then i8 (25 - from)
      else if from = SpaceHomePlayer \<or> from = SpaceHomeOpponent then
        (if variant = VariantAceyDeucey then
           (if from = SpaceHomePlayer then i8 (25 - to) else to)
         else if variant = VariantTabula then to
         else 0)
      else if from = SpaceBarPlayer then
        (if variant = VariantTabula then to else i8 (25 - to))
      else if from = SpaceBarOpponent then to
      else (let diff = i8 (to - from) in if diff < 0 then i8 (diff * - 1) else diff))"

text \<open>
  \<open>IterateSpaces\<close> calls \<open>f\<close> on each space of the walk with a running count.  The
  model returns the list of the argument pairs of these calls, in order.
\<close>

definition IterateSpaces :: "int \<Rightarrow> int \<Rightarrow> int \<Rightarrow> (int \<times> int) list" where
  "IterateSpaces from to variant =
     (if from = to \<or> from < 0 \<or> from > 25 \<or> to < 0 \<or> to > 25 then []
      else
        (let from' = (if variant = VariantBackgammon then
                        (if from = 0 then 1 else if from = 25 then 24 else from)
                      else from)
         in if to > from' then zip [from'..to] [1..to - from' + 1]
            else zip (rev [to..from']) [1..from' - to + 1]))"

definition PlayerCheckers :: "int \<Rightarrow> int \<Rightarrow> int" where
  "PlayerCheckers checkers player =
     (if player = 1 then (if checkers > 0 then checkers else 0)
      else (if checkers < 0 then i8 (checkers * - 1) else 0))"

definition OpponentCheckers :: "int \<Rightarrow> int \<Rightarrow> int" where
  "OpponentCheckers checkers player =
     (if player = 2 then (if checkers > 0 then checkers else 0)
      else (if checkers < 0 then i8 (checkers * - 1) else 0))"

definition FlipSpace :: "int \<Rightarrow> int \<Rightarrow> int \<Rightarrow> int" where
  "FlipSpace space player variant =
     (if player = 1 then space
      else if space < 1 \<or> space > 24 then
        (if space = SpaceHomePlayer then SpaceHomeOpponent
         else if space = SpaceHomeOpponent then SpaceHomePlayer
         else if space = SpaceBarPlayer then SpaceBarOpponent
         else if space = SpaceBarOpponent then SpaceBarPlayer
         else - 1)
      else if variant = VariantTabula then space
      else i8 (i8 (24 - space) + 1))"

definition ValidSpace :: "int \<Rightarrow> bool" where
  "ValidSpace space \<longleftrightarrow> space \<ge> 0 \<and> space \<le> 27"


section \<open>Game state\<close>

text \<open>
  A move is the pair of its two spaces (\<open>move[0]\<close>, \<open>move[1]\<close> of a Go slice).  The
  type \<open>Player\<close> is declared outside the sources; the engine reads and writes its
  fields \<open>Number\<close>, \<open>Name\<close> and \<open>Entered\<close>.  Times are numbers, \<open>0\<close> the zero time.
\<close>

type_synonym move = "int \<times> int"

record player =
  Number :: int
  Name :: string
  Entered :: bool

record game =
  Started :: nat
  Ended :: nat
  Player1 :: player
  Player2 :: player
  Variant :: int
  Board :: "int list"
  Turn :: int
  Roll1 :: int
  Roll2 :: int
  Roll3 :: int
  Moves :: "move list"
  Winner :: int
  Points :: int
  DoubleValue :: int
  DoublePlayer :: int
  DoubleOffered :: bool
  Reroll :: bool
  boardStates :: "int list list"
  enteredStates :: "(bool \<times> bool) list"
  Acey :: bool

text \<open>
  A function that reads or writes a slice by index returns an \<open>option\<close>: \<open>None\<close> is a
  call that does not return, because an index is out of range or the source calls
  \<open>log.Panicf\<close>.  \<open>bget b i\<close> is the read \<open>b[i]\<close> and \<open>bupd b i f\<close> the update of
  \<open>b[i]\<close> by \<open>f\<close>.
\<close>

definition bget :: "'a list \<Rightarrow> int \<Rightarrow> 'a option" where
  "bget b i = (if 0 \<le> i \<and> i < int (length b) then Some (b ! nat i) else None)"

definition bupd :: "'a list \<Rightarrow> int \<Rightarrow> ('a \<Rightarrow> 'a) \<Rightarrow> 'a list option" where
  "bupd b i f =
     (if 0 \<le> i \<and> i < int (length b) then Some (b[nat i := f (b ! nat i)]) else None)"

text \<open>\<open>anyM\<close> is a loop that stops at the first element on which the test holds.\<close>

fun anyM :: "('a \<Rightarrow> bool option) \<Rightarrow> 'a list \<Rightarrow> bool option" where
  "anyM f [] = Some False"
| "anyM f (x # xs) =
     (case f x of None \<Rightarrow> None
      | Some True \<Rightarrow> Some True
      | Some False \<Rightarrow> anyM f xs)"

text \<open>\<open>concatM\<close> is a loop whose body appends moves to one list.\<close>

fun concatM :: "('a \<Rightarrow> 'b list option) \<Rightarrow> 'a list \<Rightarrow> 'b list option" where
  "concatM f [] = Some []"
| "concatM f (x # xs) =
     (case f x of None \<Rightarrow> None
      | Some a \<Rightarrow> (case concatM f xs of None \<Rightarrow> None | Some r \<Rightarrow> Some (a @ r)))"

text \<open>
  \<open>Copy\<close> copies every slice, so the copy shares no state with the game; it leaves the
  field \<open>Acey\<close> at its zero value.
\<close>

definition Copy :: "game \<Rightarrow> game" where
  "Copy g = g\<lparr>Acey := False\<rparr>"


definition turnPlayer :: "game \<Rightarrow> player" where
  "turnPlayer g = (if Turn g = 2 then Player2 g else Player1 g)"

definition opponentPlayer :: "game \<Rightarrow> player" where
  "opponentPlayer g = (if Turn g = 2 then Player1 g else Player2 g)"

definition SecondHalf :: "game \<Rightarrow> int \<Rightarrow> bool \<Rightarrow> bool option" where
  "SecondHalf g p local =
     (if Variant g \<noteq> VariantTabula then Some False
      else
        (let b = Board g in
         case
           (if p = 1 then
              (case bget b SpaceBarPlayer of None \<Rightarrow> None
               | Some bar \<Rightarrow>
                   if bar \<noteq> 0 then Some False
                   else if \<not> Entered (Player1 g) then
                     map_option (\<lambda>h. h = 0) (bget b SpaceHomePlayer)
                   else Some True)
            else if p = 2 then
              (case bget b SpaceBarOpponent of None \<Rightarrow> None
               | Some bar \<Rightarrow>
                   if bar \<noteq> 0 then Some False
                   else if \<not> Entered (Player2 g) then
                     map_option (\<lambda>h. h = 0) (bget b SpaceHomeOpponent)
                   else Some True)
            else None)
         of None \<Rightarrow> None
         | Some False \<Rightarrow> Some False
         | Some True \<Rightarrow>
             map_option Not
               (anyM (\<lambda>space. map_option (\<lambda>v. (p = 1 \<and> v > 0) \<or> (p = 2 \<and> v < 0))
                                 (bget b space)) [1..12])))"

definition setEntered :: "game \<Rightarrow> game option" where
  "setEntered g =
     (if Variant g = VariantBackgammon then Some g
      else
        (case (if \<not> Entered (Player1 g)
               then map_option (\<lambda>h. h = 0) (bget (Board g) SpaceHomePlayer)
               else Some False) of
           None \<Rightarrow> None
         | Some True \<Rightarrow> Some (g\<lparr>Player1 := (Player1 g)\<lparr>Entered := True\<rparr>\<rparr>)
         | Some False \<Rightarrow>
             (case (if \<not> Entered (Player2 g)
                    then map_option (\<lambda>h. h = 0) (bget (Board g) SpaceHomeOpponent)
                    else Some False) of
                None \<Rightarrow> None
              | Some True \<Rightarrow> Some (g\<lparr>Player2 := (Player2 g)\<lparr>Entered := True\<rparr>\<rparr>)
              | Some False \<Rightarrow> Some g)))"

text \<open>
  \<open>addMove\<close> returns the value of the source's \<open>bool\<close> and the game after the call.
  When it returns \<open>false\<close> nothing has been written.
\<close>

definition addMove :: "game \<Rightarrow> move \<Rightarrow> (bool \<times> game) option" where
  "addMove g move =
     (case bget (Board g) (snd move) of None \<Rightarrow> None
      | Some dst \<Rightarrow>
          (let opponentCheckers = OpponentCheckers dst (Turn g) in
           if opponentCheckers > 1 then Some (False, g)
           else
             (let delta = (if Turn g = 2 then - 1 else 1);
                  g1 = g\<lparr>boardStates := boardStates g @ [Board g],
                         enteredStates := enteredStates g @
                           [(Entered (Player1 g), Entered (Player2 g))]\<rparr>
              in
                case bupd (Board g1) (fst move) (\<lambda>v. i8 (v - delta)) of None \<Rightarrow> None
                | Some b1 \<Rightarrow>
                    (case
                       (if opponentCheckers = 1 then
                          (case bupd b1 (snd move) (\<lambda>v. delta) of None \<Rightarrow> None
                           | Some b2 \<Rightarrow>
                               bupd b2 (if Turn g = 2 then SpaceBarPlayer else SpaceBarOpponent)
                                 (\<lambda>v. i8 (v + i8 (delta * - 1))))
                        else bupd b1 (snd move) (\<lambda>v. i8 (v + delta)))
                     of None \<Rightarrow> None
                     | Some b3 \<Rightarrow>
                         map_option (Pair True)
                           (setEntered (g1\<lparr>Board := b3, Moves := Moves g1 @ [move]\<rparr>))))))"

definition AddLocalMove :: "game \<Rightarrow> move \<Rightarrow> (bool \<times> game) option" where
  "AddLocalMove g move = addMove g move"

section \<open>Dice\<close>

text \<open>\<open>removeFirst P rolls\<close> deletes the first roll on which \<open>P\<close> holds, if there is one.\<close>

fun removeFirst :: "(int \<Rightarrow> bool) \<Rightarrow> int list \<Rightarrow> int list option" where
  "removeFirst P [] = None"
| "removeFirst P (r # rs) =
     (if P r then Some rs else map_option (Cons r) (removeFirst P rs))"

text \<open>
  The closure \<open>useDiceRoll\<close> of \<open>DiceRolls\<close>, with the captured slice \<open>rolls\<close> and the
  variant as arguments: \<open>None\<close> is the result \<open>false\<close>, \<open>Some rolls'\<close> is \<open>true\<close> with
  the slice after the deletion.
\<close>

definition useDiceRoll :: "int \<Rightarrow> int list \<Rightarrow> move \<Rightarrow> int list option" where
  "useDiceRoll variant rolls move =
     (let from = fst move; to = snd move in
      if to = SpaceHomePlayer \<or> to = SpaceHomeOpponent then
        (let needRoll = (if to = SpaceHomeOpponent \<or> variant = VariantTabula
                         then i8 (25 - from) else from)
         in case removeFirst (\<lambda>roll. roll = needRoll) rolls of
              Some rolls' \<Rightarrow> Some rolls'
            | None \<Rightarrow> removeFirst (\<lambda>roll. roll > needRoll) rolls)
      else removeFirst (\<lambda>roll. roll = SpaceDiff from to variant) rolls)"

fun useDiceRolls :: "int \<Rightarrow> int list \<Rightarrow> move list \<Rightarrow> int list option" where
  "useDiceRolls variant rolls [] = Some rolls"
| "useDiceRolls variant rolls (move # moves) =
     (case useDiceRoll variant rolls move of None \<Rightarrow> None
      | Some rolls' \<Rightarrow> useDiceRolls variant rolls' moves)"

definition initialRolls :: "game \<Rightarrow> int list" where
  "initialRolls g =
     [Roll1 g, Roll2 g] @
     (if Variant g = VariantTabula then [Roll3 g]
      else if Roll1 g = Roll2 g then [Roll1 g, Roll2 g] else [])"

definition DiceRolls :: "game \<Rightarrow> int list" where
  "DiceRolls g =
     (case useDiceRolls (Variant g) (initialRolls g) (Moves g) of
        None \<Rightarrow> [] | Some rolls \<Rightarrow> rolls)"

definition MayBearOff :: "game \<Rightarrow> int \<Rightarrow> bool \<Rightarrow> bool option" where
  "MayBearOff g p local =
     (case
        (case bget (Board g) SpaceBarPlayer of None \<Rightarrow> None
         | Some v \<Rightarrow>
             if PlayerCheckers v p > 0 then Some True
             else map_option (\<lambda>w. PlayerCheckers w p > 0) (bget (Board g) SpaceBarOpponent))
      of None \<Rightarrow> None
      | Some True \<Rightarrow> Some False
      | Some False \<Rightarrow>
          if (p = 1 \<and> \<not> Entered (Player1 g)) \<or> (p = 2 \<and> \<not> Entered (Player2 g))
          then Some False
          else if Variant g = VariantTabula then SecondHalf g p local
          else
            (let (homeStart, homeEnd) =
                   (if \<not> local
                    then (let (s, e) = HomeRange p (Variant g) in (min s e, max s e))
                    else (1, 6))
             in map_option Not
                  (anyM (\<lambda>i. if i < homeStart \<or> i > homeEnd
                              then map_option (\<lambda>v. PlayerCheckers v p > 0) (bget (Board g) i)
                              else Some False) [1..24])))"

definition countRolls :: "(int \<Rightarrow> bool) \<Rightarrow> int list \<Rightarrow> int" where
  "countRolls P rolls = fold (\<lambda>roll c. if P roll then i8 (c + 1) else c) rolls 0"

definition HaveDiceRoll :: "game \<Rightarrow> int \<Rightarrow> int \<Rightarrow> int option" where
  "HaveDiceRoll g from to =
     (if Variant g = VariantTabula \<and> to > 12 \<and> to < 25 \<and>
         ((Turn g = 1 \<and> \<not> Entered (Player1 g)) \<or> (Turn g = 2 \<and> \<not> Entered (Player2 g)))
      then Some 0
      else
        (case (if to = SpaceHomePlayer \<or> to = SpaceHomeOpponent
               then map_option Not (MayBearOff g (Turn g) False) else Some False) of
           None \<Rightarrow> None
         | Some True \<Rightarrow> Some 0
         | Some False \<Rightarrow>
             (let diff = SpaceDiff from to (Variant g) in
              if diff = 0 then Some 0
              else Some (countRolls (\<lambda>roll. roll = diff) (DiceRolls g)))))"

definition HaveBearOffDiceRoll :: "game \<Rightarrow> int \<Rightarrow> int" where
  "HaveBearOffDiceRoll g diff =
     (if diff = 0 then 0
      else countRolls (\<lambda>roll. roll = diff \<or> (roll > diff \<and> Variant g = VariantBackgammon))
             (DiceRolls g))"


section \<open>Legal moves\<close>

text \<open>
  The body of the callback that \<open>LegalMoves\<close> passes to \<open>IterateSpaces\<close>, for a move
  from \<open>space\<close> to \<open>to\<close>: the moves it appends.  The map \<open>movesFound\<close> of the source is
  written and never read (its tests are guarded by \<open>false\<close>), so it is left out.
\<close>

definition moveTo :: "game \<Rightarrow> int \<Rightarrow> int \<Rightarrow> move list option" where
  "moveTo g space to =
     (case HaveDiceRoll g space to of None \<Rightarrow> None
      | Some available \<Rightarrow>
          if available = 0 then Some []
          else
            (case bget (Board g) to of None \<Rightarrow> None
             | Some v \<Rightarrow>
                 if OpponentCheckers v (Turn g) \<le> 1 then Some [(space, to)] else Some []))"

text \<open>The moves that bear off from \<open>space\<close>, tried when \<open>mayBearOff\<close> holds.\<close>

definition bearOffMoves :: "game \<Rightarrow> int \<Rightarrow> move list option" where
  "bearOffMoves g space =
     (let homeSpace = (if Turn g = 2 then SpaceHomeOpponent else SpaceHomePlayer);
          available = HaveBearOffDiceRoll g (SpaceDiff space homeSpace (Variant g))
      in
        if available > 0 then
          (case
             (if Variant g = VariantBackgammon then
                (case HaveDiceRoll g space homeSpace of None \<Rightarrow> None
                 | Some h \<Rightarrow>
                     if h = 0 then
                       (let homeEnd = snd (HomeRange (Turn g) (Variant g)) in
                        map_option Not
                          (anyM (\<lambda>hs. map_option (\<lambda>v. PlayerCheckers v (Turn g) \<noteq> 0)
                                         (bget (Board g) hs))
                             (if Turn g = 2 \<and> Variant g \<noteq> VariantTabula
                              then rev [homeEnd..i8 (space - 1)]
                              else [i8 (space + 1)..homeEnd])))
                     else Some True)
              else Some True)
           of None \<Rightarrow> None
           | Some ok \<Rightarrow> Some (if ok then [(space, homeSpace)] else []))
        else Some [])"

text \<open>One round of the loop over the spaces of the board.\<close>

definition spaceMoves :: "game \<Rightarrow> bool \<Rightarrow> int \<Rightarrow> move list option" where
  "spaceMoves g mayBearOff space =
     (if space = SpaceBarPlayer \<or> space = SpaceBarOpponent then Some []
      else if (space = SpaceHomePlayer \<or> space = SpaceHomeOpponent) \<and>
              (Variant g = VariantBackgammon \<or>
               space \<noteq> (if Turn g = 2 then SpaceHomeOpponent else SpaceHomePlayer) \<or>
               (if Turn g = 2 then Entered (Player2 g) else Entered (Player1 g)))
      then Some []
      else
        (case bget (Board g) space of None \<Rightarrow> None
         | Some checkers \<Rightarrow>
             if PlayerCheckers checkers (Turn g) = 0 then Some []
             else
               (case (if mayBearOff then bearOffMoves g space else Some []) of None \<Rightarrow> None
                | Some bear \<Rightarrow>
                    (let lastSpace = (if Turn g = 2 \<or> Variant g = VariantTabula then 25 else 0);
                         walk =
                           (if space = SpaceHomePlayer then
                              IterateSpaces (if Variant g = VariantTabula then 1 else 25)
                                lastSpace (Variant g)
                            else if space = SpaceHomeOpponent then
                              IterateSpaces 1 lastSpace (Variant g)
                            else IterateSpaces space lastSpace (Variant g))
                     in case concatM (\<lambda>(to, spaceCount). moveTo g space to) walk of
                          None \<Rightarrow> None
                        | Some normal \<Rightarrow> Some (bear @ normal)))))"

text \<open>
  The first half of \<open>LegalMoves\<close>, up to the comment ``Simulate all possible moves'':
  the candidate moves, in the order in which they are appended.
\<close>

definition candidateMoves :: "game \<Rightarrow> move list option" where
  "candidateMoves g =
     (case
        (case bget (Board g) SpaceBarPlayer of None \<Rightarrow> None
         | Some v \<Rightarrow>
             if PlayerCheckers v (Turn g) > 0 then Some (Some SpaceBarPlayer)
             else
               (case bget (Board g) SpaceBarOpponent of None \<Rightarrow> None
                | Some w \<Rightarrow>
                    if PlayerCheckers w (Turn g) > 0 then Some (Some SpaceBarOpponent)
                    else Some None))
      of None \<Rightarrow> None
      | Some (Some barSpace) \<Rightarrow>
          (let (from, to) =
                 (if Variant g = VariantTabula then (1, 6)
                  else HomeRange (Number (opponentPlayer g)) (Variant g))
           in concatM (\<lambda>(homeSpace, spaceCount). moveTo g barSpace homeSpace)
                (IterateSpaces from to (Variant g)))
      | Some None \<Rightarrow>
          (case MayBearOff g (Turn g) False of None \<Rightarrow> None
           | Some mayBearOff \<Rightarrow>
               concatM (\<lambda>sp. spaceMoves g mayBearOff (i8 (int sp))) [0..<length (Board g)]))"

definition replaceSpace :: "int \<Rightarrow> int \<Rightarrow> int" where
  "replaceSpace turn i =
     (if turn = 1 \<and> i = SpaceHomeOpponent then SpaceHomePlayer
      else if turn = 1 \<and> i = SpaceBarOpponent then SpaceBarPlayer
      else if turn = 2 \<and> i = SpaceHomePlayer then SpaceHomeOpponent
      else if turn = 2 \<and> i = SpaceBarPlayer then SpaceBarOpponent
      else i)"

definition replaceMove :: "int \<Rightarrow> move \<Rightarrow> move" where
  "replaceMove turn m = (replaceSpace turn (fst m), replaceSpace turn (snd m))"

text \<open>
  \<open>movesEqual\<close> compares two sequences of at most four moves up to the order of their
  moves: the source lists the permutations of two, three and four moves one by one.
  On longer sequences of equal length it panics.
\<close>

fun sameMoves :: "move list \<Rightarrow> move list \<Rightarrow> bool" where
  "sameMoves [] b = (b = [])"
| "sameMoves (m # a) b = (m \<in> set b \<and> sameMoves a (remove1 m b))"

definition movesEqual :: "move list \<Rightarrow> move list \<Rightarrow> bool option" where
  "movesEqual a b =
     (if length b \<noteq> length a then Some False
      else if length a \<le> 4 then Some (sameMoves a b)
      else None)"

text \<open>
  The loop \<open>TOTALMOVES\<close> at the end of \<open>_totalMoves\<close>, from the sequences still to visit
  and the sequences kept so far.
\<close>

fun uniqueMoves :: "move list list \<Rightarrow> move list list \<Rightarrow> move list list option" where
  "uniqueMoves [] newMoves = Some newMoves"
| "uniqueMoves (m1 # rest) newMoves =
     (case anyM (movesEqual m1) newMoves of None \<Rightarrow> None
      | Some True \<Rightarrow> uniqueMoves rest newMoves
      | Some False \<Rightarrow> uniqueMoves rest (newMoves @ [m1]))"

text \<open>
  The loop of \<open>_totalMoves\<close> and \<open>TotalMoves\<close> that collects the sequences at least as
  long as the longest seen before them.
\<close>

fun collectMoves :: "move list list \<Rightarrow> nat \<Rightarrow> move list list \<Rightarrow> move list list" where
  "collectMoves allMoves maxMoves [] = allMoves"
| "collectMoves allMoves maxMoves (newMoves # rest) =
     (if length newMoves > maxMoves
      then collectMoves (allMoves @ [newMoves]) (length newMoves) rest
      else if length newMoves < maxMoves then collectMoves allMoves maxMoves rest
      else collectMoves (allMoves @ [newMoves]) maxMoves rest)"

text \<open>The second half of \<open>LegalMoves\<close>, from the sequences simulated for each candidate.\<close>

definition moveCountOf :: "move list list \<Rightarrow> int" where
  "moveCountOf allMoves = i8 (if length allMoves > 0 then int (length (hd allMoves)) else 0)"

definition maxMoveCount :: "int list \<Rightarrow> int" where
  "maxMoveCount moveCounts = fold (\<lambda>c maxMoves. if c > maxMoves then c else maxMoves) moveCounts 0"

definition keepLongest :: "move list \<Rightarrow> int list \<Rightarrow> move list" where
  "keepLongest moves moveCounts =
     (let maxMoves = maxMoveCount moveCounts in
      if maxMoves > 1
      then map fst (filter (\<lambda>(move, c). c \<ge> maxMoves) (zip moves moveCounts))
      else moves)"


subsection \<open>Facts about the candidates, for the termination of the simulation\<close>

lemma concatM_mem:
  "concatM f xs = Some r \<Longrightarrow> m \<in> set r \<Longrightarrow> \<exists>x\<in>set xs. \<exists>a. f x = Some a \<and> m \<in> set a"
proof (induction xs arbitrary: r)
  case Nil
  then show ?case by simp
next
  case (Cons x xs)
  then show ?case by (fastforce split: option.splits)
qed

lemma removeFirst_length:
  "removeFirst P rs = Some rs' \<Longrightarrow> length rs = Suc (length rs')"
  by (induction rs arbitrary: rs') (auto split: if_splits)

lemma useDiceRoll_length:
  "useDiceRoll v rs m = Some rs' \<Longrightarrow> length rs = Suc (length rs')"
  by (auto simp: useDiceRoll_def Let_def dest: removeFirst_length split: if_splits option.splits)

lemma useDiceRolls_length:
  "useDiceRolls v rs ms = Some rs' \<Longrightarrow> length rs = length rs' + length ms"
proof (induction ms arbitrary: rs)
  case Nil
  then show ?case by simp
next
  case (Cons m ms)
  then show ?case by (fastforce split: option.splits dest: useDiceRoll_length)
qed

lemma length_initialRolls: "length (initialRolls g) \<le> 4"
  by (simp add: initialRolls_def)

lemma DiceRolls_nonempty: "DiceRolls g \<noteq> [] \<Longrightarrow> length (Moves g) < 4"
proof -
  assume ne: "DiceRolls g \<noteq> []"
  then obtain rs where rs: "useDiceRolls (Variant g) (initialRolls g) (Moves g) = Some rs"
    and "rs \<noteq> []"
    by (auto simp: DiceRolls_def split: option.splits)
  from useDiceRolls_length [OF rs] \<open>rs \<noteq> []\<close> length_initialRolls [of g]
  show ?thesis by (cases rs) auto
qed

lemma countRolls_Nil: "countRolls P [] = 0"
  by (simp add: countRolls_def)

lemma HaveDiceRoll_nonzero:
  "HaveDiceRoll g from to = Some k \<Longrightarrow> k \<noteq> 0 \<Longrightarrow> DiceRolls g \<noteq> []"
  by (auto simp: HaveDiceRoll_def Let_def countRolls_Nil split: if_splits option.splits bool.splits)

lemma HaveBearOffDiceRoll_nonzero: "HaveBearOffDiceRoll g d \<noteq> 0 \<Longrightarrow> DiceRolls g \<noteq> []"
  by (auto simp: HaveBearOffDiceRoll_def countRolls_Nil split: if_splits)

lemma moveTo_mem:
  "moveTo g space to = Some ms \<Longrightarrow> m \<in> set ms \<Longrightarrow>
   m = (space, to) \<and> (\<exists>k. HaveDiceRoll g space to = Some k \<and> k \<noteq> 0) \<and>
   (\<exists>v. bget (Board g) to = Some v \<and> OpponentCheckers v (Turn g) \<le> 1)"
  by (auto simp: moveTo_def split: option.splits if_splits)

lemma bearOffMoves_mem:
  "bearOffMoves g space = Some ms \<Longrightarrow> m \<in> set ms \<Longrightarrow>
   m = (space, if Turn g = 2 then SpaceHomeOpponent else SpaceHomePlayer) \<and>
   HaveBearOffDiceRoll g (SpaceDiff space (snd m) (Variant g)) > 0"
  by (auto simp: bearOffMoves_def Let_def split: option.splits if_splits)

lemma spaceMoves_mem:
  assumes "spaceMoves g mb space = Some ms" and "m \<in> set ms"
  shows "space \<noteq> SpaceBarPlayer \<and> space \<noteq> SpaceBarOpponent \<and>
         (\<exists>c. bget (Board g) space = Some c \<and> PlayerCheckers c (Turn g) \<noteq> 0) \<and>
         ((mb \<and> (\<exists>bear. bearOffMoves g space = Some bear \<and> m \<in> set bear)) \<or>
          (\<exists>to a. moveTo g space to = Some a \<and> m \<in> set a))"
  using assms
  by (auto simp: spaceMoves_def Let_def split: option.splits if_splits dest!: concatM_mem)

lemma spaceMoves_dice:
  assumes "spaceMoves g mb space = Some ms" and "m \<in> set ms"
  shows "DiceRolls g \<noteq> []"
proof -
  from spaceMoves_mem [OF assms]
  consider bear where "bearOffMoves g space = Some bear" "m \<in> set bear"
    | to a where "moveTo g space to = Some a" "m \<in> set a"
    by blast
  then show ?thesis
  proof cases
    case 1
    from bearOffMoves_mem [OF 1]
    have "HaveBearOffDiceRoll g (SpaceDiff space (snd m) (Variant g)) \<noteq> 0" by linarith
    then show ?thesis by (rule HaveBearOffDiceRoll_nonzero)
  next
    case 2
    from moveTo_mem [OF 2] show ?thesis
      using HaveDiceRoll_nonzero by blast
  qed
qed

lemma candidateMoves_dice:
  "candidateMoves g = Some ms \<Longrightarrow> m \<in> set ms \<Longrightarrow> DiceRolls g \<noteq> []"
  by (auto simp: candidateMoves_def Let_def split: option.splits if_splits prod.splits
      dest!: concatM_mem moveTo_mem HaveDiceRoll_nonzero spaceMoves_dice)

lemma setEntered_Moves: "setEntered g = Some g' \<Longrightarrow> Moves g' = Moves g"
  by (auto simp: setEntered_def split: if_splits option.splits bool.splits)

lemma addMove_Moves: "addMove g m = Some (True, g') \<Longrightarrow> Moves g' = Moves g @ [m]"
  by (auto simp: addMove_def Let_def split: if_splits option.splits dest!: setEntered_Moves)

lemma candidateMoves_length:
  "candidateMoves g = Some ms \<Longrightarrow> ms \<noteq> [] \<Longrightarrow> length (Moves g) < 4"
  by (cases ms) (auto dest: candidateMoves_dice DiceRolls_nonempty)

text \<open>
  \<open>LegalMoves\<close> simulates every candidate with \<open>_totalMoves\<close> (here \<open>p_totalMoves\<close>),
  which plays the move on a copy and calls \<open>LegalMoves\<close> on the copy.  The recursion
  ends because a candidate needs an unused roll and every move played uses one.
\<close>

function (domintros) LegalMoves :: "game \<Rightarrow> bool \<Rightarrow> move list option"
  and p_totalMoves :: "game \<Rightarrow> move list \<Rightarrow> move \<Rightarrow> bool \<Rightarrow> move list list option"
where
  "LegalMoves g local =
     (if Winner g \<noteq> 0 \<or> Roll1 g = 0 \<or> Roll2 g = 0 then Some []
      else
        (case candidateMoves g of None \<Rightarrow> None
         | Some moves \<Rightarrow>
             (case those (map (\<lambda>move. p_totalMoves g (Moves g) move local) moves) of
                None \<Rightarrow> None
              | Some sims \<Rightarrow>
                  Some (map (replaceMove (Turn g))
                          (keepLongest moves (map moveCountOf sims))))))"
| "p_totalMoves g moves move local =
     (case addMove (Copy g) move of None \<Rightarrow> None
      | Some (ok, gc) \<Rightarrow>
          if \<not> ok then None
          else
            (let newMoves = moves @ [move] in
             case LegalMoves gc local of None \<Rightarrow> None
             | Some l \<Rightarrow>
                 (case those (map (\<lambda>m. p_totalMoves gc newMoves m local) l) of
                    None \<Rightarrow> None
                  | Some subs \<Rightarrow>
                      (let allMoves = collectMoves [newMoves] (length newMoves) (concat subs)
                       in case uniqueMoves allMoves [] of None \<Rightarrow> None
                          | Some newMoves' \<Rightarrow> Some allMoves))))"
  by pat_completeness auto

lemma LegalMoves_nonempty:
  assumes "LegalMoves_p_totalMoves_dom (Inl (g, local))"
    and "LegalMoves g local = Some l" and "m \<in> set l"
  shows "length (Moves g) < 4"
proof -
  from assms(2,3) obtain cs sims where cs: "candidateMoves g = Some cs"
    and l: "l = map (replaceMove (Turn g)) (keepLongest cs (map moveCountOf sims))"
    by (auto simp: LegalMoves.psimps [OF assms(1)] split: if_splits option.splits)
  have "cs \<noteq> []"
  proof
    assume "cs = []"
    then have "l = []" by (simp add: l keepLongest_def Let_def)
    with assms(3) show False by simp
  qed
  with cs show ?thesis by (rule candidateMoves_length)
qed

termination LegalMoves
proof (relation "measure (\<lambda>x. case x of
            Inl (g, local) \<Rightarrow>
              (if candidateMoves g = None \<or> candidateMoves g = Some [] then 0
               else 2 * (5 - length (Moves g)) + 2)
          | Inr (g, moves, move, local) \<Rightarrow> 2 * (5 - length (Moves g)) + 1)", goal_cases)
  case 1
  show ?case by simp
next
  case (2 g local moves move)
  then show ?case by auto
next
  case (3 g moves move local x2 ok gc)
  then have add: "addMove (Copy g) move = Some (True, gc)" by simp
  from addMove_Moves [OF add] have len: "length (Moves gc) = Suc (length (Moves g))"
    by (simp add: Copy_def)
  show ?case
  proof (cases "candidateMoves gc = None \<or> candidateMoves gc = Some []")
    case True
    then show ?thesis by auto
  next
    case False
    then obtain cs where "candidateMoves gc = Some cs" "cs \<noteq> []" by auto
    from candidateMoves_length [OF this] len show ?thesis using False by auto
  qed
next
  case (4 g moves move local x2 ok gc newMoves l m)
  then have add: "addMove (Copy g) move = Some (True, gc)" by simp
  from addMove_Moves [OF add] have len: "length (Moves gc) = Suc (length (Moves g))"
    by (simp add: Copy_def)
  from 4 have "length (Moves gc) < 4" by (auto intro: LegalMoves_nonempty)
  with len show ?case by simp
qed


declare LegalMoves.simps [simp del] p_totalMoves.simps [simp del]

section \<open>Adding and undoing moves\<close>

text \<open>The moves of \<open>l\<close> that hit a checker of the opponent, in the order of \<open>l\<close>.\<close>

definition hitMovesOf :: "game \<Rightarrow> move list \<Rightarrow> move list option" where
  "hitMovesOf g l =
     concatM (\<lambda>m. map_option (\<lambda>v. if OpponentCheckers v (Turn g) = 1 then [m] else [])
                    (bget (Board g) (snd m))) l"

text \<open>
  The two rounds of the loop of \<open>ExpandMove\<close> visit \<open>hitMoves\<close> and then \<open>l\<close> with the
  same body, and the variable \<open>currentSpace\<close> keeps its value from one round to the
  next: \<open>expandLoop\<close> is that loop over the moves still to visit.  Its result \<open>Some None\<close>
  is the source's \<open>(nil, false)\<close>.  The recursive call of \<open>ExpandMove\<close> on the copy is
  unfolded into the loop it starts.  The recursion is on a game that \<open>addMove\<close> may have
  left as it was, so \<open>None\<close> also stands for a recursion that does not end.
\<close>

partial_function (option) expandLoop ::
  "game \<Rightarrow> move \<Rightarrow> int \<Rightarrow> move list \<Rightarrow> bool \<Rightarrow> move list \<Rightarrow> move list option option"
where
  "expandLoop g move currentSpace moves local checkMoves =
     (case checkMoves of [] \<Rightarrow> Some None
      | lm # rest \<Rightarrow>
          if fst lm \<noteq> currentSpace then expandLoop g move currentSpace moves local rest
          else
            (let newMoves = moves @ [lm] in
             if snd lm = snd move then Some (Some newMoves)
             else
               (case addMove (Copy g) lm of None \<Rightarrow> None
                | Some r \<Rightarrow>
                    (case LegalMoves (snd r) local of None \<Rightarrow> None
                     | Some l \<Rightarrow>
                         (case hitMovesOf (snd r) l of None \<Rightarrow> None
                          | Some hitMoves \<Rightarrow>
                              Option.bind
                                (expandLoop (snd r) move (snd lm) newMoves local (hitMoves @ l))
                                (\<lambda>res. case res of
                                    Some m \<Rightarrow> Some (Some m)
                                  | None \<Rightarrow> expandLoop g move (snd lm) moves local rest))))))"

definition ExpandMove ::
  "game \<Rightarrow> move \<Rightarrow> int \<Rightarrow> move list \<Rightarrow> bool \<Rightarrow> move list option option"
where
  "ExpandMove g move currentSpace moves local =
     (case LegalMoves g local of None \<Rightarrow> None
      | Some l \<Rightarrow>
          (case hitMovesOf g l of None \<Rightarrow> None
           | Some hitMoves \<Rightarrow> expandLoop g move currentSpace moves local (hitMoves @ l)))"

text \<open>
  The three loops of \<open>AddMoves\<close>.  Each returns \<open>Some None\<close> where the source returns
  \<open>false, nil\<close> from inside the loop.
\<close>

fun validateMoves ::
  "game \<Rightarrow> game \<Rightarrow> bool \<Rightarrow> move list \<Rightarrow> move list \<Rightarrow> move list \<Rightarrow> nat \<Rightarrow>
   (move list \<times> move list) option option"
where
  "validateMoves g gameCopy local [] addMoves undoMoves validateOffset =
     Some (Some (addMoves, undoMoves))"
| "validateMoves g gameCopy local (move # moves) addMoves undoMoves validateOffset =
     (case LegalMoves gameCopy local of None \<Rightarrow> None
      | Some l \<Rightarrow>
          if move \<in> set l
          then validateMoves g gameCopy local moves (addMoves @ [move]) undoMoves validateOffset
          else
            (let i = int (length (Moves gameCopy)) - 1 - int validateOffset;
                 gameMove = Moves gameCopy ! nat i
             in
               if length (Moves gameCopy) > 0 \<and> i < 0 then Some None
               else if length (Moves gameCopy) > 0 \<and>
                       fst move = snd gameMove \<and> snd move = fst gameMove
               then validateMoves g gameCopy local moves addMoves
                      (undoMoves @ [(snd gameMove, fst gameMove)]) (Suc validateOffset)
               else
                 (case ExpandMove g move (fst move) [] local of None \<Rightarrow> None
                  | Some None \<Rightarrow> Some None
                  | Some (Some expandedMoves) \<Rightarrow>
                      validateMoves g gameCopy local moves (addMoves @ expandedMoves)
                        undoMoves validateOffset)))"

fun addLoop :: "game \<Rightarrow> bool \<Rightarrow> move list \<Rightarrow> bool \<Rightarrow> (game \<times> bool) option option" where
  "addLoop gameCopy local [] checkWin = Some (Some (gameCopy, checkWin))"
| "addLoop gameCopy local (move # moves) checkWin =
     (case LegalMoves gameCopy local of None \<Rightarrow> None
      | Some l \<Rightarrow>
          if move \<in> set l then
            (case addMove gameCopy move of None \<Rightarrow> None
             | Some r \<Rightarrow>
                 if \<not> fst r then Some None
                 else addLoop (snd r) local moves
                        (checkWin \<or> snd move = SpaceHomePlayer \<or> snd move = SpaceHomeOpponent))
          else addLoop gameCopy local moves checkWin)"

text \<open>Go's \<open>copy(dst, src)\<close> writes as many elements as the shorter slice has.\<close>

definition copySlice :: "'a list \<Rightarrow> 'a list \<Rightarrow> 'a list" where
  "copySlice dst src = take (length dst) src @ drop (length src) dst"

fun undoLoop :: "game \<Rightarrow> move list \<Rightarrow> game option option" where
  "undoLoop gameCopy [] = Some (Some gameCopy)"
| "undoLoop gameCopy (move # moves) =
     (if length (Moves gameCopy) > 0 then
        (let i = length (Moves gameCopy) - 1;
             gameMove = Moves gameCopy ! i
         in
           if fst move = snd gameMove \<and> snd move = fst gameMove then
             (case bget (boardStates gameCopy) (int i) of None \<Rightarrow> None
              | Some boardState \<Rightarrow>
                  (case bget (enteredStates gameCopy) (int i) of None \<Rightarrow> None
                   | Some entered \<Rightarrow>
                       undoLoop
                         (gameCopy\<lparr>Board := copySlice (Board gameCopy) boardState,
                                   Player1 := (Player1 gameCopy)\<lparr>Entered := fst entered\<rparr>,
                                   Player2 := (Player2 gameCopy)\<lparr>Entered := snd entered\<rparr>,
                                   boardStates := take i (boardStates gameCopy),
                                   enteredStates := take i (enteredStates gameCopy),
                                   Moves := take i (Moves gameCopy)\<rparr>)
                         moves))
           else Some None)
      else Some None)"

text \<open>The block guarded by \<open>checkWin\<close>.\<close>

definition checkWinner :: "game \<Rightarrow> bool \<Rightarrow> game option" where
  "checkWinner g local =
     (let entered = (if \<not> local \<and> Turn g = 2 then Entered (Player2 g)
                     else Entered (Player1 g))
      in
        if Variant g \<noteq> VariantBackgammon \<and> \<not> entered then Some g
        else
          (case anyM (\<lambda>space. map_option (\<lambda>v. PlayerCheckers v (Turn g) \<noteq> 0)
                                (bget (Board g) space)) [1..24] of
             None \<Rightarrow> None
           | Some foundChecker \<Rightarrow> Some (if \<not> foundChecker then g\<lparr>Winner := Turn g\<rparr> else g)))"

text \<open>
  \<open>AddMoves g moves local\<close> returns the game after the call, the \<open>bool\<close> and the moves.
  The source returns \<open>nil\<close> with \<open>false\<close>; it is the empty list here.
\<close>

definition AddMoves :: "game \<Rightarrow> move list \<Rightarrow> bool \<Rightarrow> (game \<times> bool \<times> move list) option" where
  "AddMoves g moves local =
     (if Name (Player1 g) = [] \<or> Name (Player2 g) = [] \<or> Winner g \<noteq> 0
      then Some (g, False, [])
      else
        (let gameCopy = Copy g in
         case validateMoves g gameCopy local moves [] [] 0 of None \<Rightarrow> None
         | Some None \<Rightarrow> Some (g, False, [])
         | Some (Some (addMoves, undoMoves)) \<Rightarrow>
             if length addMoves \<noteq> 0 \<and> length undoMoves \<noteq> 0 then Some (g, False, [])
             else
               (case addLoop gameCopy local addMoves False of None \<Rightarrow> None
                | Some None \<Rightarrow> Some (g, False, [])
                | Some (Some (gameCopy1, checkWin)) \<Rightarrow>
                    (case undoLoop gameCopy1 undoMoves of None \<Rightarrow> None
                     | Some None \<Rightarrow> Some (g, False, [])
                     | Some (Some gameCopy2) \<Rightarrow>
                         (let g1 = g\<lparr>Board := Board gameCopy2,
                                     Moves := Moves gameCopy2,
                                     Player1 := (Player1 g)\<lparr>Entered := Entered (Player1 gameCopy2)\<rparr>,
                                     Player2 := (Player2 g)\<lparr>Entered := Entered (Player2 gameCopy2)\<rparr>,
                                     boardStates := boardStates gameCopy2,
                                     enteredStates := enteredStates gameCopy2\<rparr>
                          in
                            case (if checkWin then checkWinner g1 local else Some g1) of
                              None \<Rightarrow> None
                            | Some g2 \<Rightarrow>
                                Some (g2, True,
                                      if length addMoves > 0 then addMoves else undoMoves))))))"

section \<open>Session\<close>

text \<open>
  The session holds the game and its two clients.  The type of a client is declared
  outside the sources; \<open>roll\<close> reads its name.  The values of \<open>randInt(6)\<close> and of
  \<open>time.Now()\<close> are arguments of \<open>roll\<close>.
\<close>

record serverClient =
  clientName :: string
  playerNumber :: int
  json :: bool

record serverGame =
  gameId :: int
  created :: int
  lastActive :: int
  gameName :: string
  password :: string
  client1 :: "serverClient option"
  client2 :: "serverClient option"
  allowed1 :: "string option"
  allowed2 :: "string option"
  rematch :: int
  rejoin1 :: bool
  rejoin2 :: bool
  Game :: game

definition roll :: "serverGame \<Rightarrow> int \<Rightarrow> int \<Rightarrow> int \<Rightarrow> nat \<Rightarrow> serverGame \<times> bool" where
  "roll sg p rand1 rand2 now =
     (let g = Game sg in
      if client1 sg = None \<or> client2 sg = None \<or> Winner g \<noteq> 0 then (sg, False)
      else if Turn g = 0 then
        (if (if p = 1 then Roll1 g \<noteq> 0 else Roll2 g \<noteq> 0) then (sg, False)
         else
           (let g1 = (if p = 1 then g\<lparr>Roll1 := rand1 + 1\<rparr> else g\<lparr>Roll2 := rand1 + 1\<rparr>);
                g2 = (if Started g1 = 0 then g1\<lparr>Started := now\<rparr> else g1);
                sg1 = sg\<lparr>Game := g2\<rparr>;
                sg2 = (if allowed1 sg1 = None
                       then sg1\<lparr>allowed1 := map_option clientName (client1 sg1),
                                allowed2 := map_option clientName (client2 sg1)\<rparr>
                       else sg1)
            in (sg2, True)))
      else if p \<noteq> Turn g \<or> Roll1 g \<noteq> 0 \<or> Roll2 g \<noteq> 0 then (sg, False)
      else (sg\<lparr>Game := g\<lparr>Roll1 := rand1 + 1, Roll2 := rand2 + 1\<rparr>\<rparr>, True))"


declare expandLoop.simps [code]

section \<open>Example positions\<close>

text \<open>
  Positions used to run the definitions: two named players in a game of backgammon, on a
  given board, with Player \<open>turn\<close> to move the roll \<open>r1\<close>, \<open>r2\<close>.
\<close>

definition examplePlayers :: "player \<times> player" where
  "examplePlayers =
     (\<lparr>Number = 1, Name = ''ann'', Entered = True\<rparr>,
      \<lparr>Number = 2, Name = ''bob'', Entered = True\<rparr>)"

definition exampleGame :: "int list \<Rightarrow> int \<Rightarrow> int \<Rightarrow> int \<Rightarrow> game" where
  "exampleGame board turn r1 r2 =
     \<lparr>Started = 1, Ended = 0, Player1 = fst examplePlayers, Player2 = snd examplePlayers,
      Variant = VariantBackgammon, Board = board, Turn = turn, Roll1 = r1, Roll2 = r2,
      Roll3 = 0, Moves = [], Winner = 0, Points = 1, DoubleValue = 1, DoublePlayer = 0,
      DoubleOffered = False, Reroll = False, boardStates = [], enteredStates = [],
      Acey = False\<rparr>"

text \<open>
  Player 1 has a last checker on point \<open>3\<close> and fourteen checkers off; Player 2 has
  fifteen checkers on point \<open>12\<close>.
\<close>

definition lastCheckerBoard :: "int list" where
  "lastCheckerBoard =
     [14, 0, 0, 1, 0, 0, 0, 0, 0, 0, 0, 0, - 15, 0, 0, 0, 0, 0, 0, 0, 0, 0, 0, 0, 0, 0, 0, 0]"


text \<open>
  A game of acey-deucey with the roll 6-5 and the pending move that bears off from
  point \<open>3\<close>.
\<close>

definition aceyBearOffGame :: game where
  "aceyBearOffGame =
     (exampleGame lastCheckerBoard 1 6 5)\<lparr>Variant := VariantAceyDeucey, Moves := [(3, 0)]\<rparr>"


text \<open>
  Player 1 has played the \<open>2\<close> of the roll 2-1 from point \<open>6\<close> to point \<open>4\<close>;
  \<open>twoCheckerBoard\<close> is the board before that move and \<open>pendingBoard\<close> the board
  after it.
\<close>

definition twoCheckerBoard :: "int list" where
  "twoCheckerBoard =
     [13, 0, 0, 0, 1, 0, 1, 0, 0, 0, 0, 0, - 15, 0, 0, 0, 0, 0, 0, 0, 0, 0, 0, 0, 0, 0, 0, 0]"

definition pendingBoard :: "int list" where
  "pendingBoard =
     [13, 0, 0, 0, 2, 0, 0, 0, 0, 0, 0, 0, - 15, 0, 0, 0, 0, 0, 0, 0, 0, 0, 0, 0, 0, 0, 0, 0]"

definition pendingGame :: game where
  "pendingGame =
     (exampleGame pendingBoard 1 2 1)
       \<lparr>Moves := [(6, 4)], boardStates := [twoCheckerBoard], enteredStates := [(True, True)]\<rparr>"

text \<open>
  Player 1 has a checker on point \<open>10\<close> and one on point \<open>20\<close>; Player 2 holds the
  points \<open>7\<close>, \<open>15\<close> and \<open>17\<close>.  With the roll 3-2 the checker on \<open>10\<close> can play both
  numbers (10/8, 8/5); the checker on \<open>20\<close> can play the \<open>2\<close> only, and then no \<open>3\<close> is left
  to play.
\<close>

definition blockedBoard :: "int list" where
  "blockedBoard =
     [13, 0, 0, 0, 0, 0, 0, - 5, 0, 0, 1, 0, 0, 0, 0, - 5, 0, - 5, 0, 0, 1, 0, 0, 0, 0, 0, 0, 0]"

section \<open>Coordinates\<close>

text \<open>
  C9.  Flipping a valid space to Player 2's perspective twice gives the space back, in
  every variant: \<open>FlipSpace (FlipSpace s 2 v) 2 v = s\<close> for \<open>0 \<le> s \<le> 27\<close>.
\<close>

theorem FlipSpace_involution:
  "0 \<le> s \<Longrightarrow> s \<le> 27 \<Longrightarrow> FlipSpace (FlipSpace s 2 v) 2 v = s"
  by (auto simp: FlipSpace_def space_defs i8_def)

theorem FlipSpace_involution_witness:
  "(0::int) \<le> 7 \<and> (7::int) \<le> 27 \<and>
   FlipSpace (FlipSpace 7 2 VariantBackgammon) 2 VariantBackgammon = 7 \<and>
   FlipSpace 7 2 VariantBackgammon = 18"
  using FlipSpace_involution [of 7 VariantBackgammon]
  by (simp add: FlipSpace_def space_defs variant_defs i8_def)

lemma SpaceDiff_to_bar:
  "to = SpaceBarPlayer \<or> to = SpaceBarOpponent \<Longrightarrow> SpaceDiff from to v = 0"
  by (auto simp: SpaceDiff_def space_defs)

text \<open>
  C8.  \<open>SpaceDiff\<close> is claimed to return \<open>0\<close> whenever the destination is a bar and
  whenever origin and destination are both homes.  The first half holds
  (\<open>SpaceDiff_to_bar\<close>).  The second does not: the cases for a destination home come
  before the case for an origin home, so a move from one home to the other measures
  \<open>25\<close>, and so does a move from Player 1's home to itself in tabula.
\<close>

theorem SpaceDiff_home_to_home:
  "SpaceDiff SpaceHomePlayer SpaceHomeOpponent VariantBackgammon = 25 \<and>
   SpaceDiff SpaceHomeOpponent SpaceHomePlayer VariantAceyDeucey = 25 \<and>
   SpaceDiff SpaceHomePlayer SpaceHomePlayer VariantTabula = 25"
  by (simp add: SpaceDiff_def space_defs variant_defs i8_def)

section \<open>The guards of the mutators\<close>



text \<open>
  C10.  \<open>AddMoves\<close> fails and leaves the game as it is when a player's name is empty,
  whatever the submitted moves are.
\<close>

theorem AddMoves_unnamed_player:
  "Name (Player1 g) = [] \<or> Name (Player2 g) = [] \<Longrightarrow>
   AddMoves g moves local = Some (g, False, [])"
  by (auto simp: AddMoves_def)

theorem AddMoves_unnamed_player_witness:
  "Name (Player2 ((exampleGame lastCheckerBoard 1 3 6)
           \<lparr>Player2 := \<lparr>Number = 2, Name = [], Entered = True\<rparr>\<rparr>)) = [] \<and>
   AddMoves ((exampleGame lastCheckerBoard 1 3 6)
           \<lparr>Player2 := \<lparr>Number = 2, Name = [], Entered = True\<rparr>\<rparr>) [(3, 0)] False =
     Some ((exampleGame lastCheckerBoard 1 3 6)
           \<lparr>Player2 := \<lparr>Number = 2, Name = [], Entered = True\<rparr>\<rparr>, False, [])"
  using AddMoves_unnamed_player
    [of "(exampleGame lastCheckerBoard 1 3 6)
           \<lparr>Player2 := \<lparr>Number = 2, Name = [], Entered = True\<rparr>\<rparr>" "[(3, 0)]" False]
  by (simp add: exampleGame_def)


section \<open>Dice\<close>

lemma removeFirst_eq:
  "x \<in> set rolls \<Longrightarrow> removeFirst (\<lambda>roll. roll = x) rolls = Some (remove1 x rolls)"
  by (induction rolls) auto

text \<open>An exactly matching pip is used for a bear-off move when there is one.\<close>

lemma useDiceRoll_exact:
  "to = SpaceHomePlayer \<or> to = SpaceHomeOpponent \<Longrightarrow>
   needRoll = (if to = SpaceHomeOpponent \<or> variant = VariantTabula then i8 (25 - from) else from) \<Longrightarrow>
   needRoll \<in> set rolls \<Longrightarrow>
   useDiceRoll variant rolls (from, to) = Some (remove1 needRoll rolls)"
  by (simp add: useDiceRoll_def removeFirst_eq)

text \<open>
  C4.  The claim lets a pending bear-off move use a greater pip only in backgammon.
  \<open>useDiceRoll\<close> has no test of the variant in its second loop: in acey-deucey with the
  roll 6-5, the pending move from point \<open>3\<close> to home uses the \<open>6\<close> and \<open>DiceRolls\<close>
  returns the \<open>5\<close>; in tabula the pending move from point \<open>22\<close> uses the \<open>6\<close> as well.
  \<open>HaveBearOffDiceRoll\<close> does test the variant, so the same move is not offered.
\<close>

theorem DiceRolls_greater_pip_any_variant:
  "Variant aceyBearOffGame = VariantAceyDeucey \<and>
   DiceRolls aceyBearOffGame = [5] \<and>
   DiceRolls (aceyBearOffGame\<lparr>Variant := VariantTabula, Moves := [(22, 0)]\<rparr>) = [5, 0] \<and>
   HaveBearOffDiceRoll (aceyBearOffGame\<lparr>Moves := []\<rparr>) 3 = 0"
  by (simp add: aceyBearOffGame_def exampleGame_def DiceRolls_def initialRolls_def
      useDiceRoll_def HaveBearOffDiceRoll_def countRolls_def space_defs variant_defs i8_def)

section \<open>The effect of a move on the board\<close>







section \<open>Failed calls of AddMoves\<close>

lemma validateMoves_acc:
  assumes "LegalMoves gc local = Some l"
    and "validateMoves g gc local ms adds undos off = Some (Some (A, U))"
  shows "set adds \<subseteq> set A \<and> (undos \<noteq> [] \<longrightarrow> U \<noteq> []) \<and> (\<forall>a\<in>set ms. a \<in> set l \<longrightarrow> a \<in> set A)"
  using assms(2)
proof (induction ms arbitrary: adds undos off)
  case Nil
  then show ?case by simp
next
  case (Cons m ms)
  show ?case
  proof (cases "m \<in> set l")
    case True
    with Cons.prems assms(1)
    have "validateMoves g gc local ms (adds @ [m]) undos off = Some (Some (A, U))" by simp
    from Cons.IH [OF this] True show ?thesis by auto
  next
    case False
    with Cons.prems assms(1)
    consider u where "validateMoves g gc local ms adds (undos @ [u]) (Suc off) = Some (Some (A, U))"
      | e where "validateMoves g gc local ms (adds @ e) undos off = Some (Some (A, U))"
      by (auto simp: Let_def split: if_splits option.splits)
    then show ?thesis
    proof cases
      case 1
      from Cons.IH [OF this] False show ?thesis by auto
    next
      case 2
      from Cons.IH [OF this] False show ?thesis by auto
    qed
  qed
qed

lemma validateMoves_adds:
  assumes "LegalMoves gc local = Some l" and "set pre \<subseteq> set l"
  shows "validateMoves g gc local (pre @ ms) adds undos off =
         validateMoves g gc local ms (adds @ pre) undos off"
  using assms(2) by (induction pre arbitrary: adds) (simp_all add: assms(1))

text \<open>
  C6.  A call of \<open>AddMoves\<close> that returns \<open>false\<close> returns the game it was called on,
  unchanged in every field.  A call that mixes the two kinds of move fails: when the
  submitted list holds a legal move \<open>a\<close> and its first move that is not legal is the
  reverse \<open>u\<close> of the last pending move, the call returns \<open>false\<close> and the unchanged game.
\<close>

theorem AddMoves_failure_unchanged:
  "(AddMoves g moves local = Some (g', False, r) \<longrightarrow> g' = g \<and> r = []) \<and>
   (LegalMoves (Copy g) local = Some l \<and> moves = pre @ u # post \<and> set pre \<subseteq> set l \<and>
    u \<notin> set l \<and> Moves g \<noteq> [] \<and> u = (snd (last (Moves g)), fst (last (Moves g))) \<and>
    a \<in> set moves \<and> a \<in> set l \<and> AddMoves g moves local = Some (g', ok, r)
    \<longrightarrow> \<not> ok \<and> g' = g)"
proof (rule conjI; rule impI)
  assume "AddMoves g moves local = Some (g', False, r)"
  then show "g' = g \<and> r = []"
    by (auto simp: AddMoves_def Let_def split: if_splits option.splits prod.splits)
next
  assume h: "LegalMoves (Copy g) local = Some l \<and> moves = pre @ u # post \<and> set pre \<subseteq> set l \<and>
    u \<notin> set l \<and> Moves g \<noteq> [] \<and> u = (snd (last (Moves g)), fst (last (Moves g))) \<and>
    a \<in> set moves \<and> a \<in> set l \<and> AddMoves g moves local = Some (g', ok, r)"
  then have l: "LegalMoves (Copy g) local = Some l" and pre: "set pre \<subseteq> set l"
    and moves: "moves = pre @ u # post" and u: "u \<notin> set l"
    and ne: "Moves g \<noteq> []" and ueq: "u = (snd (last (Moves g)), fst (last (Moves g)))"
    and a: "a \<in> set moves" "a \<in> set l"
    and res: "AddMoves g moves local = Some (g', ok, r)"
    by blast+
  have mc: "Moves (Copy g) = Moves g" by (simp add: Copy_def)
  have idx: "Moves g ! nat (int (length (Moves g)) - 1) = last (Moves g)"
    using ne by (simp add: last_conv_nth nat_diff_distrib')
  have step: "validateMoves g (Copy g) local moves [] [] 0 =
        validateMoves g (Copy g) local post pre [(fst u, snd u)] (Suc 0)"
    using l u ne ueq idx
    by (simp add: moves validateMoves_adds [OF l pre] mc Let_def)
  have mixed: "validateMoves g (Copy g) local moves [] [] 0 = Some (Some (A, U)) \<Longrightarrow>
        A \<noteq> [] \<and> U \<noteq> []" for A U
  proof -
    assume "validateMoves g (Copy g) local moves [] [] 0 = Some (Some (A, U))"
    with step have v: "validateMoves g (Copy g) local post pre [(fst u, snd u)] (Suc 0) =
        Some (Some (A, U))" by simp
    from validateMoves_acc [OF l v] a u moves have "a \<in> set A" "U \<noteq> []" by auto
    then show ?thesis by auto
  qed
  from res mixed show "\<not> ok \<and> g' = g"
    by (auto simp: AddMoves_def Let_def split: if_splits option.splits prod.splits)
qed

theorem AddMoves_failure_unchanged_witness:
  "LegalMoves (Copy pendingGame) False = Some [(4, 3)] \<and>
   Moves pendingGame = [(6, 4)] \<and>
   AddMoves pendingGame [(4, 3), (4, 6)] False = Some (pendingGame, False, [])"
proof -
  have l: "LegalMoves (Copy pendingGame) False = Some [(4, 3)]"
    by code_simp
  have m: "Moves pendingGame = [(6, 4)]"
    by (simp add: pendingGame_def)
  have "AddMoves pendingGame [(4, 3), (4, 6)] False \<noteq> None"
    by code_simp
  then obtain g' ok r where res: "AddMoves pendingGame [(4, 3), (4, 6)] False = Some (g', ok, r)"
    by auto
  from AddMoves_failure_unchanged
    [of pendingGame "[(4, 3), (4, 6)]" False g' r "[(4, 3)]" "[(4, 3)]" "(4, 6)" "[]" "(4, 3)" ok]
    l m res
  have "\<not> ok \<and> g' = pendingGame \<and> r = []" by auto
  with res l m show ?thesis by simp
qed


section \<open>The simulation of LegalMoves\<close>

text \<open>
  The first sequence that \<open>_totalMoves\<close> returns is the pending moves followed by the
  simulated move, and \<open>LegalMoves\<close> takes the length of that first sequence as the
  count of the candidate.  Every candidate has the same count, so the filter keeps all
  of them: \<open>LegalMoves\<close> returns the candidates, with the spaces replaced.
\<close>

lemma collectMoves_hd: "acc \<noteq> [] \<Longrightarrow> collectMoves acc n rest \<noteq> [] \<and> hd (collectMoves acc n rest) = hd acc"
  by (induction acc n rest rule: collectMoves.induct) auto

lemma p_totalMoves_hd:
  "p_totalMoves g moves move local = Some allMoves \<Longrightarrow>
   allMoves \<noteq> [] \<and> hd allMoves = moves @ [move]"
  using collectMoves_hd [of "[moves @ [move]]"]
  by (auto simp: p_totalMoves.simps Let_def split: option.splits if_splits prod.splits)

lemma those_map_Some:
  "those (map f xs) = Some ys \<Longrightarrow> length ys = length xs \<and> (\<forall>i<length xs. f (xs ! i) = Some (ys ! i))"
proof (induction xs arbitrary: ys)
  case Nil
  then show ?case by simp
next
  case (Cons x xs)
  then obtain y ys' where y: "f x = Some y" and ys': "those (map f xs) = Some ys'" and ys: "ys = y # ys'"
    by (auto split: option.splits)
  from Cons.IH [OF ys'] y ys show ?case
    by (auto simp: nth_Cons split: nat.splits)
qed

lemma maxMoveCount_replicate:
  "0 \<le> c \<Longrightarrow> maxMoveCount (replicate n c) = (if n = 0 then 0 else c)"
proof -
  assume c: "0 \<le> c"
  have "fold (\<lambda>c m. if c > m then c else m) (replicate n c) a = (if n = 0 then a else max a c)" for a
    by (induction n arbitrary: a) (auto simp: max_def)
  from this [of 0] c show ?thesis by (simp add: maxMoveCount_def max_def)
qed

lemma keepLongest_replicate:
  "0 \<le> c \<Longrightarrow> keepLongest moves (replicate (length moves) c) = moves"
  by (auto simp: keepLongest_def maxMoveCount_replicate Let_def zip_replicate2 filter_map comp_def
      intro: map_idI)

lemma LegalMoves_candidates:
  assumes "LegalMoves g local = Some l"
    and "Winner g = 0" "Roll1 g \<noteq> 0" "Roll2 g \<noteq> 0"
  shows "\<exists>cs. candidateMoves g = Some cs \<and> l = map (replaceMove (Turn g)) cs \<and>
           (\<forall>c\<in>set cs. \<exists>allMoves. p_totalMoves g (Moves g) c local = Some allMoves)"
proof -
  from assms obtain cs sims where cs: "candidateMoves g = Some cs"
    and sims: "those (map (\<lambda>move. p_totalMoves g (Moves g) move local) cs) = Some sims"
    and l: "l = map (replaceMove (Turn g)) (keepLongest cs (map moveCountOf sims))"
    by (auto simp: LegalMoves.simps split: option.splits if_splits)
  note S = those_map_Some [OF sims]
  have each: "\<forall>i<length cs. moveCountOf (sims ! i) = i8 (int (length (Moves g)) + 1)"
  proof (intro allI impI)
    fix i assume i: "i < length cs"
    with S have "p_totalMoves g (Moves g) (cs ! i) local = Some (sims ! i)" by simp
    from p_totalMoves_hd [OF this] show "moveCountOf (sims ! i) = i8 (int (length (Moves g)) + 1)"
      by (simp add: moveCountOf_def add.commute)
  qed
  have counts: "map moveCountOf sims = replicate (length cs) (i8 (int (length (Moves g)) + 1))"
    using S each by (auto simp: list_eq_iff_nth_eq)
  have sim: "\<forall>c\<in>set cs. \<exists>allMoves. p_totalMoves g (Moves g) c local = Some allMoves"
    using S by (metis in_set_conv_nth)
  show ?thesis
  proof (cases "cs = []")
    case True
    with cs l show ?thesis by (simp add: keepLongest_def Let_def)
  next
    case False
    from candidateMoves_length [OF cs False] have "i8 (int (length (Moves g)) + 1) = int (length (Moves g)) + 1"
      by (simp add: i8_id)
    then have "0 \<le> i8 (int (length (Moves g)) + 1)" by simp
    from keepLongest_replicate [OF this, of cs] counts cs l sim show ?thesis by simp
  qed
qed

text \<open>
  C1.  The claim is that a returned move reaches the longest sequence of moves that any
  candidate reaches.  On \<open>blockedBoard\<close> with the roll 3-2 the simulation finds the
  sequence 10/8, 8/5 of two moves after 10/8 and only the sequence of one move after
  20/18, and \<open>LegalMoves\<close> returns 20/18 all the same.
\<close>

theorem LegalMoves_keeps_shorter_move:
  "LegalMoves (exampleGame blockedBoard 1 3 2) False = Some [(10, 8), (20, 18)] \<and>
   p_totalMoves (exampleGame blockedBoard 1 3 2) [] (10, 8) False =
     Some [[(10, 8)], [(10, 8), (8, 5)]] \<and>
   p_totalMoves (exampleGame blockedBoard 1 3 2) [] (20, 18) False = Some [[(20, 18)]]"
  by code_simp

end
